theory Spec2Isabelle
  imports Complex_Main
begin

section \<open>Python strings\<close>

text \<open>
  A Python \<open>str\<close> is modelled as a \<open>string\<close> (a list of characters); one list element
  stands for one code point, so \<open>length\<close> is Python's \<open>len\<close>.
\<close>

abbreviation NL :: char where
  "NL \<equiv> CHR 0x0A"

text \<open>\<open>s.startswith(p)\<close>.\<close>

definition startswith :: "string \<Rightarrow> string \<Rightarrow> bool" where
  "startswith s p = (take (length p) s = p)"

text \<open>
  \<open>s.split(c)\<close> for a one-character separator: the pieces between the separators, empty
  pieces included, so the result is never empty (\<open>''.split('\n') == ['']\<close>) and the
  first branch of the inner \<open>case\<close> never arises.
\<close>

fun split_on :: "char \<Rightarrow> string \<Rightarrow> string list" where
  "split_on c [] = [[]]"
| "split_on c (x # xs) =
     (if x = c then [] # split_on c xs
      else (case split_on c xs of [] \<Rightarrow> [[x]] | w # ws \<Rightarrow> (x # w) # ws))"

text \<open>The lines of a triple-quoted literal, joined by newlines.\<close>

fun join_nl :: "string list \<Rightarrow> string" where
  "join_nl [] = []"
| "join_nl [l] = l"
| "join_nl (l # ls) = l @ NL # join_nl ls"

text \<open>\<open>str(n)\<close> for a non-negative integer, as an f-string prints a count.\<close>

definition digit_char :: "nat \<Rightarrow> char" where
  "digit_char d = char_of (48 + d)"

function str_nat :: "nat \<Rightarrow> string" where
  "str_nat n = (if n < 10 then [digit_char n] else str_nat (n div 10) @ [digit_char (n mod 10)])"
  by pat_completeness auto
termination
  by (relation "measure id") auto

declare str_nat.simps [simp del]

section \<open>The fallback review (\<open>llm_reviewer.py\<close>)\<close>

text \<open>
  The local variables of \<open>_generate_fallback_review\<close>: \<open>lines\<close> is
  \<open>diff_content.split('\n')\<close>, and the three counts are the lengths of the list
  comprehensions of lines 317 to 319.
\<close>

definition added_lines :: "string \<Rightarrow> nat" where
  "added_lines diff_content =
     length (filter (\<lambda>l. startswith l ''+'' \<and> \<not> startswith l ''+++'') (split_on NL diff_content))"

definition removed_lines :: "string \<Rightarrow> nat" where
  "removed_lines diff_content =
     length (filter (\<lambda>l. startswith l ''-'' \<and> \<not> startswith l ''---'') (split_on NL diff_content))"

definition file_changes :: "string \<Rightarrow> nat" where
  "file_changes diff_content =
     length (filter (\<lambda>l. startswith l ''+++'') (split_on NL diff_content))"

text \<open>
  Lines 322 to 326: \<open>complexity = "LOW"\<close>, overwritten by \<open>"HIGH"\<close> when
  \<open>added_lines > 100\<close> and otherwise by \<open>"MEDIUM"\<close> when \<open>added_lines > 50\<close>.
\<close>

definition complexity :: "nat \<Rightarrow> string" where
  "complexity added =
     (if added > 100 then ''HIGH'' else if added > 50 then ''MEDIUM'' else ''LOW'')"

text \<open>The f-string template of lines 334 to 351.\<close>

definition fallback_report :: "nat \<Rightarrow> nat \<Rightarrow> nat \<Rightarrow> string \<Rightarrow> string" where
  "fallback_report files added removed cplx = join_nl
     [''## Automated Code Review (Fallback Mode)'',
      '''',
      ''**Note:** AI review service is temporarily unavailable. Basic analysis provided.'',
      '''',
      ''### Change Summary'',
      ''- **Files Modified:** '' @ str_nat files,
      ''- **Lines Added:** '' @ str_nat added,
      ''- **Lines Removed:** '' @ str_nat removed,
      ''- **Change Complexity:** '' @ cplx,
      '''',
      ''### Recommended Manual Checks'',
      ''1. **Code Review:** Carefully examine all added code for logic errors'',
      ''2. **Testing:** Verify adequate test coverage for new functionality'',
      ''3. **Security:** Check for potential security issues in new code'',
      ''4. **Documentation:** Ensure comments and docs are updated'',
      ''5. **Integration:** Test integration with existing systems'',
      '''',
      ''Please perform a thorough manual code review of these changes.'']"

definition generate_fallback_review :: "string \<Rightarrow> string" where
  "generate_fallback_review diff_content =
     (if diff_content = [] then
        join_nl [''## Automated Code Review (Fallback Mode)'', '''',
                 ''No diff content available for analysis.'']
      else fallback_report (file_changes diff_content) (added_lines diff_content)
             (removed_lines diff_content) (complexity (added_lines diff_content)))"

section \<open>More of Python's built-ins\<close>

datatype py_error = ValueError | AttributeError | OverflowError

text \<open>
  The characters that \<open>str.strip()\<close> removes, among the code points below 256: tab, line
  feed, vertical tab, form feed, carriage return, the separators 0x1C to 0x1F, space,
  0x85 and 0xA0.
\<close>

definition is_space :: "char \<Rightarrow> bool" where
  "is_space c = (c \<in> set [CHR 0x09, CHR 0x0A, CHR 0x0B, CHR 0x0C, CHR 0x0D,
                             CHR 0x1C, CHR 0x1D, CHR 0x1E, CHR 0x1F, CHR 0x20,
                             CHR 0x85, CHR 0xA0])"

definition strip :: "string \<Rightarrow> string" where
  "strip s = rev (dropWhile is_space (rev (dropWhile is_space s)))"

text \<open>
  \<open>s.rstrip(chars)\<close>: the argument is a set of characters, each of which is removed from
  the right end for as long as the last character is one of them.
\<close>

definition rstrip_chars :: "string \<Rightarrow> string \<Rightarrow> string" where
  "rstrip_chars s chars = rev (dropWhile (\<lambda>c. c \<in> set chars) (rev s))"

text \<open>\<open>s[:n]\<close>: a negative bound counts from the end.\<close>

definition slice_to :: "'a list \<Rightarrow> int \<Rightarrow> 'a list" where
  "slice_to s n = (if 0 \<le> n then take (nat n) s else take (nat (int (length s) + n)) s)"

text \<open>\<open>s.rfind(c)\<close>: the index of the last occurrence of \<open>c\<close>, or \<open>-1\<close>.\<close>

fun rfind :: "string \<Rightarrow> char \<Rightarrow> int" where
  "rfind [] c = - 1"
| "rfind (x # xs) c =
     (let r = rfind xs c in if 0 \<le> r then r + 1 else if x = c then 0 else - 1)"

text \<open>
  \<open>int(s)\<close> for a string: surrounding whitespace is ignored, then an optional sign and
  decimal digits, where single underscores may separate digits; anything else raises
  \<open>ValueError\<close> (\<open>None\<close> here). The whitespace of \<open>int\<close> is that of \<open>strip\<close>
  without the separators 0x1C to 0x1F. The interpreter's limit on the number of digits
  is not modelled.
\<close>

definition is_int_space :: "char \<Rightarrow> bool" where
  "is_int_space c = (c \<in> set [CHR 0x09, CHR 0x0A, CHR 0x0B, CHR 0x0C, CHR 0x0D, CHR 0x20,
                                 CHR 0x85, CHR 0xA0])"

definition is_digit :: "char \<Rightarrow> bool" where
  "is_digit c = (c \<in> set ''0123456789'')"

fun digits_ok :: "string \<Rightarrow> bool" where
  "digits_ok [] = False"
| "digits_ok [c] = is_digit c"
| "digits_ok (c # d # cs) =
     (is_digit c \<and> (if d = CHR ''_'' then digits_ok cs else digits_ok (d # cs)))"

definition digits_value :: "string \<Rightarrow> int" where
  "digits_value ds =
     fold (\<lambda>c acc. if c = CHR ''_'' then acc else 10 * acc + (of_char c - 48)) ds 0"

definition py_int :: "string \<Rightarrow> int option" where
  "py_int s =
     (case rev (dropWhile is_int_space (rev (dropWhile is_int_space s))) of
        [] \<Rightarrow> None
      | c # cs \<Rightarrow>
          if c = CHR ''-'' then (if digits_ok cs then Some (- digits_value cs) else None)
          else if c = CHR ''+'' then (if digits_ok cs then Some (digits_value cs) else None)
          else if digits_ok (c # cs) then Some (digits_value (c # cs))
          else None)"

text \<open>
  Floats are IEEE doubles, each modelled by the real number it denotes. The result of an
  operation is the exact result rounded to the nearest double, ties to the even
  significand; a rounded magnitude of \<open>2 ^ 1024\<close> or more stands for an infinity.

  \<open>exponent_up\<close> and \<open>exponent_down\<close> give the binary exponent
  \<open>\<lfloor>log\<^sub>2 x\<rfloor>\<close> of \<open>x \<ge> 1\<close> and of \<open>0 < x < 1\<close>.
\<close>

function exponent_up :: "real \<Rightarrow> int" where
  "exponent_up x = (if x < 2 then 0 else exponent_up (x / 2) + 1)"
  by pat_completeness auto
termination
proof (relation "measure (\<lambda>x. nat \<lceil>x\<rceil>)")
  fix x :: real
  assume "\<not> x < 2"
  then have "\<lceil>x / 2\<rceil> < \<lceil>x\<rceil>" by linarith
  moreover have "0 < \<lceil>x\<rceil>" using \<open>\<not> x < 2\<close> by linarith
  ultimately show "(x / 2, x) \<in> measure (\<lambda>x. nat \<lceil>x\<rceil>)" by simp
qed simp

function exponent_down :: "real \<Rightarrow> int" where
  "exponent_down x = (if x \<le> 0 \<or> 1 \<le> x then 0 else exponent_down (2 * x) - 1)"
  by pat_completeness auto
termination
proof (relation "measure (\<lambda>x. nat \<lceil>1 / x\<rceil>)")
  fix x :: real
  assume "\<not> (x \<le> 0 \<or> 1 \<le> x)"
  then have x: "0 < x" "x < 1" by simp_all
  define y where "y = 1 / x"
  have y: "1 < y" using x by (simp add: y_def)
  have half: "1 / (2 * x) = y / 2" by (simp add: y_def)
  have two: "2 \<le> \<lceil>y\<rceil>" using y by linarith
  have "y / 2 \<le> of_int \<lceil>y\<rceil> / 2" by linarith
  also have "\<dots> \<le> of_int (\<lceil>y\<rceil> - 1)" using two by simp
  finally have "\<lceil>y / 2\<rceil> \<le> \<lceil>y\<rceil> - 1" by (rule ceiling_le)
  with two have "nat \<lceil>y / 2\<rceil> < nat \<lceil>y\<rceil>" by simp
  then have "nat \<lceil>1 / (2 * x)\<rceil> < nat \<lceil>1 / x\<rceil>"
    unfolding half y_def [symmetric] .
  then show "(2 * x, x) \<in> measure (\<lambda>x. nat \<lceil>1 / x\<rceil>)" by simp
qed simp

declare exponent_up.simps [simp del] exponent_down.simps [simp del]

definition binary_exponent :: "real \<Rightarrow> int" where
  "binary_exponent x = (if 1 \<le> \<bar>x\<bar> then exponent_up \<bar>x\<bar> else exponent_down \<bar>x\<bar>)"

text \<open>The integer nearest to \<open>y\<close>, the even one of two that are equally near.\<close>

definition round_half_even :: "real \<Rightarrow> int" where
  "round_half_even y =
     (let f = \<lfloor>y\<rfloor> in
      if y - of_int f < 1 / 2 then f
      else if 1 / 2 < y - of_int f then f + 1
      else if even f then f else f + 1)"

text \<open>
  The double nearest to \<open>x\<close>: doubles with binary exponent \<open>e\<close> are the multiples of
  \<open>2 ^ (e - 52)\<close>, and below \<open>2 ^ (- 1022)\<close> the multiples of \<open>2 ^ (- 1074)\<close>.
\<close>

definition round_double :: "real \<Rightarrow> real" where
  "round_double x =
     (if x = 0 then 0
      else
        (let q = 2 powi (max (binary_exponent x) (- 1022) - 52)
         in of_int (round_half_even (x / q)) * q))"

text \<open>
  Arithmetic of an \<open>int\<close> with a float converts the \<open>int\<close> first, which raises
  \<open>OverflowError\<close> when it rounds to a value beyond the largest double.
\<close>

definition float_overflows :: "int \<Rightarrow> bool" where
  "float_overflows i = (\<bar>i\<bar> \<ge> 2 ^ 1024 - 2 ^ 970)"

text \<open>\<open>int(x)\<close> for a float: truncation towards zero.\<close>

definition int_of_float :: "real \<Rightarrow> int" where
  "int_of_float x = (if 0 \<le> x then \<lfloor>x\<rfloor> else \<lceil>x\<rceil>)"

section \<open>Configuration (\<open>config.py\<close>)\<close>

record config =
  github_repository :: string
  max_diff_length :: int
  request_timeout :: int
  max_retries :: int

text \<open>
  The regular expression of \<open>_parse_repository\<close> after the literal prefix:
  \<open>([^/]+)/([^/]+)/?$\<close>, matched at the start of \<open>rest\<close>. Neither group can hold a
  slash and a slash must follow the first, so the first group is the text up to the
  first slash and the second the text up to the next slash or the end; what is left
  must be nothing, one slash, or one slash and a final newline (\<open>$\<close> also matches
  before a newline that ends the string).
\<close>

definition match_owner_repo :: "string \<Rightarrow> (string \<times> string) option" where
  "match_owner_repo rest =
     (let not_slash = (\<lambda>c. c \<noteq> CHR ''/'');
          g1 = takeWhile not_slash rest
      in if g1 = [] then None
         else (case dropWhile not_slash rest of
                 [] \<Rightarrow> None
               | _ # after \<Rightarrow>
                   (let g2 = takeWhile not_slash after;
                        left = dropWhile not_slash after
                    in if g2 = [] then None
                       else if left = [] \<or> left = ''/'' \<or> left = [CHR ''/'', NL]
                       then Some (g1, g2) else None)))"

text \<open>
  \<open>re.search(r'github\.com[/:]([^/]+)/([^/]+)/?$', s)\<close>: the leftmost position at which
  the pattern matches.
\<close>

fun search_github :: "string \<Rightarrow> (string \<times> string) option" where
  "search_github [] = None"
| "search_github (c # cs) =
     (if startswith (c # cs) ''github.com'' \<and>
         (startswith (drop 10 (c # cs)) ''/'' \<or> startswith (drop 10 (c # cs)) '':'')
      then (case match_owner_repo (drop 11 (c # cs)) of
              Some g \<Rightarrow> Some g
            | None \<Rightarrow> search_github cs)
      else search_github cs)"

definition parse_repository :: "string \<Rightarrow> py_error + string" where
  "parse_repository repo_input0 =
     (if repo_input0 = [] \<or> strip repo_input0 = [] then Inl ValueError
      else
        (let repo_input = strip repo_input0 in
         if CHR ''/'' \<in> set repo_input \<and> \<not> startswith repo_input ''http'' then Inr repo_input
         else if startswith repo_input ''http'' then
           (case search_github (rstrip_chars repo_input ''.git'') of
              Some (owner, repo) \<Rightarrow> Inr (owner @ ''/'' @ repo)
            | None \<Rightarrow> Inl ValueError)
         else Inl ValueError))"

section \<open>Truncation (\<open>llm_reviewer.py\<close>)\<close>

text \<open>
  \<open>truncate_content\<close>. The source compares \<open>last_newline\<close> with the floating-point
  product \<open>max_chars * 0.8\<close>; the model takes the product exactly, which gives the same
  comparison for every budget below \<open>2 ^ 49\<close>, and the comparison is reached only with
  a budget below the length of the content.
\<close>

definition truncate_content :: "config \<Rightarrow> string \<Rightarrow> int option \<Rightarrow> string" where
  "truncate_content cfg content max_chars_arg =
     (let max_chars = (case max_chars_arg of None \<Rightarrow> max_diff_length cfg | Some m \<Rightarrow> m)
      in if int (length content) \<le> max_chars then content
         else
           (let truncated = slice_to content max_chars;
                last_newline = rfind truncated NL
            in if real_of_int last_newline > real_of_int max_chars * 0.8
               then slice_to truncated last_newline
               else truncated))"

text \<open>The defaults of \<open>Config.__init__\<close>, for a repository \<open>acme/widgets\<close>.\<close>

definition default_config :: config where
  "default_config =
     \<lparr>github_repository = ''acme/widgets'', max_diff_length = 4000,
      request_timeout = 30, max_retries = 5\<rparr>"

section \<open>Responses and the outside world\<close>

text \<open>
  A decoded JSON document as Python holds it: \<open>None\<close>, \<open>bool\<close>, \<open>int\<close>, \<open>float\<close>,
  \<open>str\<close>, \<open>list\<close> and \<open>dict\<close>. A \<open>JObj\<close> lists the items of the dict, each key
  once. Floats are modelled by reals.
\<close>

datatype json =
    JNull
  | JBool bool
  | JInt int
  | JFloat real
  | JStr string
  | JArr "json list"
  | JObj "(string \<times> json) list"

text \<open>Python's truth value of an object, as \<open>if x\<close>, \<open>not x\<close> and \<open>x or y\<close> take it.\<close>

fun truthy :: "json \<Rightarrow> bool" where
  "truthy JNull = False"
| "truthy (JBool b) = b"
| "truthy (JInt i) = (i \<noteq> 0)"
| "truthy (JFloat x) = (x \<noteq> 0)"
| "truthy (JStr s) = (s \<noteq> [])"
| "truthy (JArr xs) = (xs \<noteq> [])"
| "truthy (JObj kvs) = (kvs \<noteq> [])"


text \<open>\<open>d.get(k, default)\<close>, and \<open>d.get(k)\<close> whose default is \<open>None\<close>.\<close>

definition dict_get_default :: "(string \<times> json) list \<Rightarrow> string \<Rightarrow> json \<Rightarrow> json" where
  "dict_get_default kvs k d = (case map_of kvs k of None \<Rightarrow> d | Some v \<Rightarrow> v)"


text \<open>
  A \<open>requests.Response\<close>: \<open>headers\<close> is the lookup \<open>response.headers.get\<close>,
  \<open>resp_text\<close> is \<open>response.text\<close>, and \<open>json\<close> is what \<open>response.json()\<close> returns,
  \<open>None\<close> when it raises \<open>ValueError\<close>.
\<close>

record response =
  status_code :: int
  headers :: "string \<Rightarrow> string option"
  resp_text :: string
  json :: "json option"

definition header_or :: "response \<Rightarrow> string \<Rightarrow> string \<Rightarrow> string" where
  "header_or r k d = (case headers r k of None \<Rightarrow> d | Some v \<Rightarrow> v)"

text \<open>
  \<open>raise_for_status()\<close> raises \<open>HTTPError\<close> for the statuses 400 to 599, and the truth
  value of a response (\<open>Response.ok\<close>) is that it does not.
\<close>

definition raises_for_status :: "response \<Rightarrow> bool" where
  "raises_for_status r = (400 \<le> status_code r \<and> status_code r < 600)"


text \<open>
  What one HTTP call does: it returns a response, or raises \<open>Timeout\<close>,
  \<open>ConnectionError\<close>, or another \<open>RequestException\<close>.
\<close>

datatype outcome =
    Returned response
  | RaisedTimeout
  | RaisedConnectionError
  | RaisedRequestException

text \<open>The effects a run leaves behind: HTTP calls issued and sleeps taken, in order.\<close>

datatype event = Request | Sleep real

definition requests_made :: "event list \<Rightarrow> nat" where
  "requests_made evs = length (filter (\<lambda>e. e = Request) evs)"

section \<open>The inference call (\<open>llm_reviewer.py\<close>)\<close>

text \<open>
  Lines 136 to 139 and 143 to 146: a truthy \<open>generated_text\<close> is stripped and
  returned; \<open>.strip()\<close> exists on strings only, so any other truthy value raises
  \<open>AttributeError\<close>, which no handler of \<open>_call_huggingface_api\<close> catches.
\<close>

definition stripped_text :: "json \<Rightarrow> py_error + string option" where
  "stripped_text generated_text =
     (if truthy generated_text then
        (case generated_text of
           JStr s \<Rightarrow> Inr (Some (strip s))
         | _ \<Rightarrow> Inl AttributeError)
      else Inr None)"

text \<open>
  Lines 122 to 149, the handling of a response with status 200. \<open>result[0].get\<close>
  exists when the first element is a dict; for any other element it raises
  \<open>AttributeError\<close>.
\<close>

definition extract_generated_text :: "response \<Rightarrow> py_error + string option" where
  "extract_generated_text r =
     (case json r of
        None \<Rightarrow> Inr None
      | Some result \<Rightarrow>
          (case result of
             JArr (first # _) \<Rightarrow>
               (case first of
                  JObj kvs \<Rightarrow> stripped_text (dict_get_default kvs ''generated_text'' (JStr ''''))
                | _ \<Rightarrow> Inl AttributeError)
           | JObj kvs \<Rightarrow> stripped_text (dict_get_default kvs ''generated_text'' (JStr ''''))
           | _ \<Rightarrow> Inr None))"

text \<open>
  \<open>_call_huggingface_api\<close>. The endpoint is the parameter \<open>post\<close>: what
  \<open>requests.post\<close> does for this prompt in the call with this \<open>retry_count\<close>. The
  result comes with the log of the requests and sleeps of the whole chain of calls.
\<close>

definition retry_after :: "real \<Rightarrow> (py_error + string option) \<times> event list \<Rightarrow>
    (py_error + string option) \<times> event list" where
  "retry_after wait_time later = (fst later, Request # Sleep wait_time # snd later)"

function call_huggingface_api ::
  "config \<Rightarrow> (string \<Rightarrow> int \<Rightarrow> outcome) \<Rightarrow> string \<Rightarrow> int \<Rightarrow>
     (py_error + string option) \<times> event list" where
  "call_huggingface_api cfg post prompt retry_count =
     (if retry_count \<ge> max_retries cfg then (Inr None, [])
      else
        (case post prompt retry_count of
           Returned r \<Rightarrow>
             if status_code r = 200 then (extract_generated_text r, [Request])
             else if status_code r = 503 then
               retry_after (of_int (10 * (retry_count + 1)))
                 (call_huggingface_api cfg post prompt (retry_count + 1))
             else if 500 \<le> status_code r \<and> status_code r < 600 \<and> retry_count < max_retries cfg
             then retry_after (of_int (5 * (retry_count + 1)))
                    (call_huggingface_api cfg post prompt (retry_count + 1))
             else (Inr None, [Request])
         | RaisedTimeout \<Rightarrow>
             if retry_count < max_retries cfg
             then retry_after (of_int (5 * (retry_count + 1)))
                    (call_huggingface_api cfg post prompt (retry_count + 1))
             else (Inr None, [Request])
         | RaisedConnectionError \<Rightarrow>
             if retry_count < max_retries cfg
             then retry_after (of_int (5 * (retry_count + 1)))
                    (call_huggingface_api cfg post prompt (retry_count + 1))
             else (Inr None, [Request])
         | RaisedRequestException \<Rightarrow>
             if retry_count < max_retries cfg
             then retry_after (of_int (5 * (retry_count + 1)))
                    (call_huggingface_api cfg post prompt (retry_count + 1))
             else (Inr None, [Request])))"
  by pat_completeness auto
termination
  by (relation "measure (\<lambda>(cfg, post, prompt, retry_count). nat (max_retries cfg - retry_count))")
    auto

declare call_huggingface_api.simps [simp del]

text \<open>
  \<open>_clean_review_response\<close>. \<open>re.sub(r'[^.!?]+$', '', review)\<close> deletes the longest run
  of characters other than \<open>.\<close>, \<open>!\<close> and \<open>?\<close> that ends the text.
\<close>

definition sentence_end :: "char \<Rightarrow> bool" where
  "sentence_end c = (c \<in> set ''.!?'')"

definition clean_review_response :: "string \<Rightarrow> string" where
  "clean_review_response review0 =
     (if review0 = [] then []
      else
        (let review = rev (dropWhile (\<lambda>c. \<not> sentence_end c) (rev review0));
             review' = (if review \<noteq> [] \<and> \<not> sentence_end (last review)
                        then review @ ''.'' else review)
         in strip review'))"

text \<open>The f-string of lines 229 to 247.\<close>

definition review_prompt :: "string \<Rightarrow> string \<Rightarrow> string \<Rightarrow> string" where
  "review_prompt pr_title pr_description truncated_diff = join_nl
     [''<s>[INST] You are an experienced software engineer reviewing a pull request. '',
      ''        Provide specific, actionable feedback focused on:'',
      '''',
      ''        1. CODE QUALITY: Code structure, naming, simplicity'',
      ''        2. BUG RISKS: Potential errors, edge cases, null checks'',
      ''        3. SECURITY: Input validation, authentication, data exposure'',
      ''        4. PERFORMANCE: Inefficient operations, memory usage'',
      ''        5. MAINTAINABILITY: Readability, documentation, complexity'',
      '''',
      ''        Be concise but thorough. Point to specific lines when possible.'',
      '''',
      ''        Pull Request Details:'',
      ''        Title: '' @ pr_title,
      ''        Description: '' @ pr_description,
      '''',
      ''        Code Changes:'',
      ''        ```diff'',
      ''        '' @ truncated_diff,
      ''        Provide your code review: [/INST]'']"

definition generate_review ::
  "config \<Rightarrow> (string \<Rightarrow> int \<Rightarrow> outcome) \<Rightarrow> string \<Rightarrow> string \<Rightarrow> string \<Rightarrow>
     (py_error + string option) \<times> event list" where
  "generate_review cfg post pr_title pr_description0 diff_content =
     (let pr_description =
            (if pr_description0 = [] \<or> strip pr_description0 = []
             then ''No description provided.'' else pr_description0);
          truncated_diff = truncate_content cfg diff_content None;
          prompt = review_prompt pr_title pr_description truncated_diff;
          (review, evs) = call_huggingface_api cfg post prompt 0
      in case review of
           Inl e \<Rightarrow> (Inl e, evs)
         | Inr None \<Rightarrow> (Inr None, evs)
         | Inr (Some text) \<Rightarrow>
             if text \<noteq> [] then (Inr (Some (clean_review_response text)), evs)
             else (Inr None, evs))"

definition generate_review_with_fallback ::
  "config \<Rightarrow> (string \<Rightarrow> int \<Rightarrow> outcome) \<Rightarrow> string \<Rightarrow> string \<Rightarrow> string \<Rightarrow>
     (py_error + string) \<times> event list" where
  "generate_review_with_fallback cfg post pr_title pr_description diff_content =
     (let (review, evs) = generate_review cfg post pr_title pr_description diff_content
      in case review of
           Inl e \<Rightarrow> (Inl e, evs)
         | Inr None \<Rightarrow> (Inr (generate_fallback_review diff_content), evs)
         | Inr (Some text) \<Rightarrow>
             if text \<noteq> [] then (Inr text, evs)
             else (Inr (generate_fallback_review diff_content), evs))"

section \<open>The request executor (\<open>github_client.py\<close>)\<close>

text \<open>The mutable fields of a \<open>GitHubClient\<close>; \<open>__init__\<close> sets them to 10 and 0.\<close>

record client =
  rate_limit_remaining :: int
  last_request_time :: real

definition init_client :: client where
  "init_client = \<lparr>rate_limit_remaining = 10, last_request_time = 0\<rparr>"

text \<open>
  \<open>_handle_rate_limit\<close>; \<open>current_time\<close> is what \<open>time.time()\<close> returns at line 76.
  The \<open>int\<close> of line 65 is outside the \<open>try\<close>, so a remaining-quota header that is
  not an integer raises \<open>ValueError\<close>; the one of line 75 is inside it. The
  subtraction of line 77 converts \<open>reset_time\<close> to a float and rounds the difference;
  the handler of line 88 does not catch the \<open>OverflowError\<close> of the conversion, nor
  the one that \<open>int\<close> raises at line 87 for an infinite \<open>sleep_time\<close>.
\<close>

definition handle_rate_limit :: "response \<Rightarrow> real \<Rightarrow> py_error + int option" where
  "handle_rate_limit r current_time =
     (if status_code r \<noteq> 403 \<and> status_code r \<noteq> 429 then Inr None
      else
        (case py_int (header_or r ''X-RateLimit-Remaining'' ''0'') of
           None \<Rightarrow> Inl ValueError
         | Some remaining \<Rightarrow>
             if remaining > 0 \<and> status_code r \<noteq> 429 then Inr None
             else
               (case headers r ''X-RateLimit-Reset'' of
                  None \<Rightarrow> Inr None
                | Some reset_time_str \<Rightarrow>
                    if reset_time_str = [] then Inr None
                    else
                      (case py_int reset_time_str of
                         None \<Rightarrow> Inr None
                       | Some reset_time \<Rightarrow>
                           if float_overflows reset_time then Inl OverflowError
                           else
                             (let difference =
                                    round_double
                                      (round_double (of_int reset_time) - current_time);
                                  sleep_time = max difference 0
                              in if sleep_time < 1 then Inr None
                                 else if 2 ^ 1024 \<le> sleep_time then Inl OverflowError
                                 else Inr (Some (int_of_float sleep_time)))))))"

text \<open>
  What a call of \<open>_make_request\<close> meets outside the program: the clock reading of line
  121, and for each attempt of the loop what \<open>session.get\<close> does for the URL and the
  diff flag, the clock readings of lines 139 and 76, and the value of
  \<open>random.uniform(0, 1)\<close>. \<open>time.sleep\<close> is taken to return normally.
\<close>

record world =
  start_time :: real
  http_get :: "string \<Rightarrow> bool \<Rightarrow> nat \<Rightarrow> outcome"
  time_after_get :: "nat \<Rightarrow> real"
  time_in_handler :: "nat \<Rightarrow> real"
  jitter :: "nat \<Rightarrow> real"

text \<open>\<open>min(60, (2 ** attempt) + random.uniform(0, 1))\<close>, the sum taken exactly.\<close>

definition backoff :: "world \<Rightarrow> nat \<Rightarrow> real" where
  "backoff w attempt = min 60 (2 ^ attempt + jitter w attempt)"

text \<open>The result of a request: what is returned or raised, the client, and the log.\<close>

type_synonym request_result = "(py_error + response option) \<times> client \<times> event list"

definition after_events :: "event list \<Rightarrow> request_result \<Rightarrow> request_result" where
  "after_events evs later = (fst later, fst (snd later), evs @ snd (snd later))"

text \<open>
  The loop \<open>for attempt in range(max_retries + 1)\<close> of \<open>_make_request\<close>, over the
  attempts still to run. \<open>continue\<close> is the recursive call; when the attempts run
  out, line 207 returns \<open>None\<close>.
\<close>

fun make_request_loop ::
  "world \<Rightarrow> string \<Rightarrow> bool \<Rightarrow> int \<Rightarrow> nat list \<Rightarrow> client \<Rightarrow> request_result" where
  "make_request_loop w url is_diff max_retries' [] c = (Inr None, c, [])"
| "make_request_loop w url is_diff max_retries' (attempt # rest) c =
     (case http_get w url is_diff attempt of
        Returned r \<Rightarrow>
          (let c1 = c\<lparr>last_request_time := time_after_get w attempt\<rparr> in
           case py_int (header_or r ''X-RateLimit-Remaining'' ''10'') of
             None \<Rightarrow> (Inl ValueError, c1, [Request])
           | Some remaining \<Rightarrow>
               (let c2 = c1\<lparr>rate_limit_remaining := remaining\<rparr> in
                if status_code r = 403 \<or> status_code r = 429 then
                  (case handle_rate_limit r (time_in_handler w attempt) of
                     Inl e \<Rightarrow> (Inl e, c2, [Request])
                   | Inr (Some sleep_time) \<Rightarrow>
                       after_events [Request, Sleep (of_int sleep_time)]
                         (make_request_loop w url is_diff max_retries' rest c2)
                   | Inr None \<Rightarrow>
                       if int attempt < max_retries' then
                         after_events [Request, Sleep (backoff w attempt)]
                           (make_request_loop w url is_diff max_retries' rest c2)
                       else (Inr None, c2, [Request]))
                else if raises_for_status r then (Inr None, c2, [Request])
                else (Inr (Some r), c2, [Request])))
      | RaisedTimeout \<Rightarrow>
          if int attempt < max_retries' then
            after_events [Request, Sleep (backoff w attempt)]
              (make_request_loop w url is_diff max_retries' rest c)
          else (Inr None, c, [Request])
      | RaisedConnectionError \<Rightarrow>
          if int attempt < max_retries' then
            after_events [Request, Sleep (backoff w attempt)]
              (make_request_loop w url is_diff max_retries' rest c)
          else (Inr None, c, [Request])
      | RaisedRequestException \<Rightarrow> (Inr None, c, [Request]))"

text \<open>\<open>range(n)\<close>.\<close>

definition py_range :: "int \<Rightarrow> nat list" where
  "py_range n = [0..<nat n]"

definition make_request ::
  "config \<Rightarrow> world \<Rightarrow> client \<Rightarrow> string \<Rightarrow> bool \<Rightarrow> int option \<Rightarrow> request_result" where
  "make_request cfg w c url is_diff max_retries_arg =
     (let max_retries' = (case max_retries_arg of None \<Rightarrow> max_retries cfg | Some m \<Rightarrow> m);
          time_since_last = start_time w - last_request_time c;
          spacing = (if time_since_last < 1 then [Sleep (1 - time_since_last)] else [])
      in after_events spacing
           (make_request_loop w url is_diff max_retries' (py_range (max_retries' + 1)) c))"

section \<open>The repository gateway (\<open>github_client.py\<close>)\<close>



text \<open>The dict built at lines 252 to 258, and the one returned at lines 306 to 315.\<close>

record pr_summary =
  number :: json
  title :: json
  body :: json
  html_url :: json
  user :: json

record pr_detail = pr_summary +
  state :: json
  created_at :: json
  updated_at :: json







section \<open>Concrete inputs\<close>

text \<open>An inference endpoint that answers every request with 503.\<close>

definition always_loading :: "string \<Rightarrow> int \<Rightarrow> outcome" where
  "always_loading prompt retry_count =
     Returned \<lparr>status_code = 503, headers = (\<lambda>k. None), resp_text = ''loading'', json = None\<rparr>"

text \<open>An inference endpoint that answers 200 with the JSON document \<open>[1]\<close>.\<close>

definition list_of_number :: "string \<Rightarrow> int \<Rightarrow> outcome" where
  "list_of_number prompt retry_count =
     Returned \<lparr>status_code = 200, headers = (\<lambda>k. None), resp_text = ''[1]'',
               json = Some (JArr [JInt 1])\<rparr>"

text \<open>
  A response with the given status, headers and decoded body, and a world in which the
  clock stands at 1000, the jitter is 0 and \<open>session.get\<close> does what \<open>get\<close> says
  for each attempt.
\<close>

definition plain_response :: "int \<Rightarrow> (string \<times> string) list \<Rightarrow> json option \<Rightarrow> response" where
  "plain_response status hs doc =
     \<lparr>status_code = status, headers = map_of hs, resp_text = [], json = doc\<rparr>"

definition world_of :: "(nat \<Rightarrow> outcome) \<Rightarrow> world" where
  "world_of get =
     \<lparr>start_time = 1000, http_get = (\<lambda>url is_diff attempt. get attempt),
      time_after_get = (\<lambda>attempt. 1000), time_in_handler = (\<lambda>attempt. 1000),
      jitter = (\<lambda>attempt. 0)\<rparr>"

text \<open>Every call times out.\<close>

definition always_timeout :: "nat \<Rightarrow> outcome" where
  "always_timeout attempt = RaisedTimeout"

text \<open>A 403 with five calls of quota left, then a plain 200.\<close>

definition forbidden_then_ok :: "nat \<Rightarrow> outcome" where
  "forbidden_then_ok attempt =
     (if attempt = 0 then Returned (plain_response 403 [(''X-RateLimit-Remaining'', ''5'')] None)
      else Returned (plain_response 200 [] None))"

text \<open>A 200 whose remaining-quota header is a given string.\<close>

definition quota_header :: "string \<Rightarrow> nat \<Rightarrow> outcome" where
  "quota_header v attempt = Returned (plain_response 200 [(''X-RateLimit-Remaining'', v)] None)"







section \<open>Properties of the fallback review\<close>

lemma split_on_not_Nil: "split_on c s \<noteq> []"
  by (induction s) (auto split: list.splits)

lemma generate_fallback_review_not_Nil: "generate_fallback_review d \<noteq> []"
  by (simp add: generate_fallback_review_def fallback_report_def)

text \<open>
  C1, as the code has it. For a non-empty diff the fallback report carries the complexity
  label of the number of added lines, and that label is LOW for 0 to 50 added lines,
  MEDIUM for 51 to 100, and HIGH for 101 or more: both comparisons of the source are
  strict, so exactly 50 added lines is LOW and exactly 100 is MEDIUM.
\<close>

theorem fallback_complexity_thresholds:
  "diff_content \<noteq> [] \<Longrightarrow>
     generate_fallback_review diff_content =
       fallback_report (file_changes diff_content) (added_lines diff_content)
         (removed_lines diff_content)
         (if added_lines diff_content \<le> 50 then ''LOW''
          else if added_lines diff_content \<le> 100 then ''MEDIUM'' else ''HIGH'')"
  by (simp add: generate_fallback_review_def complexity_def)

text \<open>A non-empty diff with one added line is classified LOW.\<close>

theorem fallback_complexity_thresholds_witness:
  "''+a'' \<noteq> [] \<and> generate_fallback_review ''+a'' = fallback_report 0 1 0 ''LOW''"
  using fallback_complexity_thresholds [of "''+a''"]
  by (simp add: added_lines_def removed_lines_def file_changes_def startswith_def)

text \<open>
  C1 as the specification words it fails: a diff of exactly 50 added lines is reported
  with complexity LOW, not MEDIUM.
\<close>

theorem fallback_complexity_fifty_counterexample:
  "added_lines (concat (replicate 50 (''+x'' @ [NL]))) = 50 \<and>
   generate_fallback_review (concat (replicate 50 (''+x'' @ [NL]))) =
     fallback_report 0 50 0 ''LOW''"
  by code_simp

section \<open>Properties of truncation\<close>

lemma rfind_upper: "rfind s c < int (length s)"
  by (induction s) (auto simp: Let_def)

lemma rfind_hit: "0 \<le> rfind s c \<Longrightarrow> s ! nat (rfind s c) = c"
proof (induction s)
  case Nil
  then show ?case by simp
next
  case (Cons x xs)
  show ?case
  proof (cases "0 \<le> rfind xs c")
    case True
    then have "nat (rfind xs c + 1) = Suc (nat (rfind xs c))" by simp
    with True Cons.IH show ?thesis by (simp add: Let_def)
  next
    case False
    with Cons.prems show ?thesis by (simp add: Let_def split: if_splits)
  qed
qed

lemma rfind_last: "i < length s \<Longrightarrow> s ! i = c \<Longrightarrow> int i \<le> rfind s c"
proof (induction s arbitrary: i)
  case Nil
  then show ?case by simp
next
  case (Cons x xs)
  show ?case
  proof (cases i)
    case 0
    with Cons.prems show ?thesis by (simp add: Let_def)
  next
    case (Suc k)
    with Cons.prems have "int k \<le> rfind xs c" by (simp add: Cons.IH)
    with Suc show ?thesis by (simp add: Let_def)
  qed
qed

text \<open>
  C5. Let the budget be the \<open>max_chars\<close> argument, or the configured
  \<open>max_diff_length\<close> when the argument is absent, and let it be positive. Content no
  longer than the budget is returned unchanged. Longer content is cut to at most the
  budget; and when the first \<open>max_chars\<close> characters hold a newline at a position
  greater than \<open>0.8 * max_chars\<close>, the result is the content up to, and without, the
  last newline of those first \<open>max_chars\<close> characters.
\<close>

theorem truncate_content_budget:
  assumes budget: "(case max_chars_arg of None \<Rightarrow> max_diff_length cfg | Some m \<Rightarrow> m) = max_chars"
    and pos: "0 < max_chars"
  shows "(int (length content) \<le> max_chars \<longrightarrow>
            truncate_content cfg content max_chars_arg = content) \<and>
         (max_chars < int (length content) \<longrightarrow>
            int (length (truncate_content cfg content max_chars_arg)) \<le> max_chars \<and>
            (\<forall>i. i < nat max_chars \<and> content ! i = NL \<and> real_of_int max_chars * 0.8 < real i \<longrightarrow>
               (\<exists>j. i \<le> j \<and> j < nat max_chars \<and> content ! j = NL \<and>
                    (\<forall>k. j < k \<and> k < nat max_chars \<longrightarrow> content ! k \<noteq> NL) \<and>
                    truncate_content cfg content max_chars_arg = take j content)))"
proof (intro conjI impI allI)
  assume "int (length content) \<le> max_chars"
  then show "truncate_content cfg content max_chars_arg = content"
    using budget by (simp add: truncate_content_def)
next
  define w where "w = take (nat max_chars) content"
  define r where "r = rfind w NL"
  assume over: "max_chars < int (length content)"
  then have len_w: "length w = nat max_chars"
    using pos by (simp add: w_def)
  have slice: "slice_to content max_chars = w"
    using pos by (simp add: slice_to_def w_def)
  have r_lt: "r < max_chars"
    using rfind_upper [of w NL] len_w pos by (simp add: r_def)
  have unfolded: "truncate_content cfg content max_chars_arg =
      (if real_of_int r > real_of_int max_chars * 0.8 then slice_to w r else w)"
    using over budget by (simp add: truncate_content_def slice r_def Let_def)
  have "length (slice_to w r) \<le> length w"
    by (simp add: slice_to_def min_def)
  then have "int (length (slice_to w r)) \<le> max_chars" and "int (length w) \<le> max_chars"
    using len_w pos by simp_all
  then show "int (length (truncate_content cfg content max_chars_arg)) \<le> max_chars"
    unfolding unfolded by (simp split: if_splits)
  fix i
  assume i: "i < nat max_chars \<and> content ! i = NL \<and> real_of_int max_chars * 0.8 < real i"
  then have "i < length w" by (simp add: len_w)
  moreover from i have "w ! i = NL" by (simp add: w_def)
  ultimately have "w ! i = NL" and "i < length w" by simp_all
  then have i_le: "int i \<le> r"
    unfolding r_def by (rule rfind_last [rotated])
  then have r0: "0 \<le> r" by simp
  define j where "j = nat r"
  have j_lt: "j < nat max_chars" using r_lt r0 by (simp add: j_def)
  have "w ! j = NL" using rfind_hit [of w NL] r0 by (simp add: r_def j_def)
  then have at_j: "content ! j = NL" using j_lt by (simp add: w_def)
  have after: "\<forall>k. j < k \<and> k < nat max_chars \<longrightarrow> content ! k \<noteq> NL"
  proof (intro allI impI notI)
    fix k assume k: "j < k \<and> k < nat max_chars" and "content ! k = NL"
    then have "k < length w" by (simp add: len_w)
    moreover from k \<open>content ! k = NL\<close> have "w ! k = NL" by (simp add: w_def)
    ultimately have "w ! k = NL" "k < length w" by simp_all
    then have "int k \<le> r" unfolding r_def by (rule rfind_last [rotated])
    with k show False unfolding j_def by linarith
  qed
  have "real_of_int max_chars * 0.8 < real_of_int r"
  proof -
    have "real_of_int (int i) \<le> real_of_int r"
      using i_le by (simp only: of_int_le_iff)
    then have "real i \<le> real_of_int r" by simp
    with i show ?thesis by simp
  qed
  then have "truncate_content cfg content max_chars_arg = slice_to w r"
    by (simp add: unfolded)
  also have "\<dots> = take j w" using r0 by (simp add: slice_to_def j_def)
  also have "\<dots> = take j content" using j_lt by (simp add: w_def min_def)
  finally have res: "truncate_content cfg content max_chars_arg = take j content" .
  have "i \<le> j" using i_le r0 by (simp add: j_def)
  with j_lt at_j after res
  show "\<exists>j. i \<le> j \<and> j < nat max_chars \<and> content ! j = NL \<and>
            (\<forall>k. j < k \<and> k < nat max_chars \<longrightarrow> content ! k \<noteq> NL) \<and>
            truncate_content cfg content max_chars_arg = take j content"
    by blast
qed

text \<open>
  Budget 10: a two-character text is unchanged, and a thirteen-character text with its
  only newline at position 9 is cut to the nine characters before that newline.
\<close>

theorem truncate_content_budget_witness:
  "truncate_content default_config ''ab'' (Some 10) = ''ab'' \<and>
   truncate_content default_config (''abcdefghi'' @ [NL] @ ''xyz'') (Some 10) = ''abcdefghi''"
  using truncate_content_budget [where max_chars_arg = "Some 10" and cfg = default_config
      and max_chars = 10 and content = "''ab''"]
    truncate_content_budget [where max_chars_arg = "Some 10" and cfg = default_config
      and max_chars = 10 and content = "''abcdefghi'' @ [NL] @ ''xyz''"]
  by (simp add: truncate_content_def slice_to_def)

section \<open>Properties of the inference call\<close>

lemma requests_made_retry_after:
  "requests_made (snd (retry_after w later)) = Suc (requests_made (snd later))"
  by (simp add: retry_after_def requests_made_def)

lemma call_huggingface_api_requests:
  "requests_made (snd (call_huggingface_api cfg post prompt retry_count))
     \<le> nat (max_retries cfg - retry_count)"
proof (induction "nat (max_retries cfg - retry_count)" arbitrary: retry_count)
  case 0
  then have "max_retries cfg \<le> retry_count" by simp
  then show ?case
    by (simp add: call_huggingface_api.simps [of cfg post prompt retry_count] requests_made_def)
next
  case (Suc n)
  then have below: "retry_count < max_retries cfg" and n: "n = nat (max_retries cfg - (retry_count + 1))"
    by simp_all
  have later: "requests_made (snd (call_huggingface_api cfg post prompt (retry_count + 1))) \<le> n"
    using Suc.hyps(1) [OF n] n by simp
  have bound: "nat (max_retries cfg - retry_count) = Suc n"
    using Suc.hyps(2) by simp
  show ?case
    unfolding bound call_huggingface_api.simps [of cfg post prompt retry_count]
    using below later
    by (simp add: requests_made_retry_after split: outcome.splits) (simp add: requests_made_def)
qed

lemma call_huggingface_api_exhausted:
  "max_retries cfg \<le> retry_count \<Longrightarrow> call_huggingface_api cfg post prompt retry_count = (Inr None, [])"
  by (simp add: call_huggingface_api.simps [of cfg post prompt retry_count])

text \<open>
  C10. Whatever the endpoint does, the chain of calls of \<open>_call_huggingface_api\<close> that
  starts at \<open>retry_count = 0\<close> issues at most \<open>max_retries\<close> requests (none for a
  ceiling below zero); and with a ceiling of 0, \<open>generate_review_with_fallback\<close> sends no
  request and returns the fallback review.
\<close>

theorem inference_requests_bound:
  "requests_made (snd (call_huggingface_api cfg post prompt 0)) \<le> nat (max_retries cfg) \<and>
   (max_retries cfg = 0 \<longrightarrow>
      generate_review_with_fallback cfg post pr_title pr_description diff_content =
        (Inr (generate_fallback_review diff_content), []))"
proof
  show "requests_made (snd (call_huggingface_api cfg post prompt 0)) \<le> nat (max_retries cfg)"
    using call_huggingface_api_requests [of cfg post prompt 0] by simp
  show "max_retries cfg = 0 \<longrightarrow>
      generate_review_with_fallback cfg post pr_title pr_description diff_content =
        (Inr (generate_fallback_review diff_content), [])"
    by (simp add: generate_review_with_fallback_def generate_review_def Let_def
          call_huggingface_api_exhausted)
qed

text \<open>
  With a ceiling of 0 and an endpoint that always answers 503, no request is sent and the
  fallback review of the diff is returned.
\<close>

theorem inference_requests_bound_witness:
  "requests_made (snd (call_huggingface_api (default_config\<lparr>max_retries := 0\<rparr>)
      always_loading ''p'' 0)) \<le> nat 0 \<and>
   generate_review_with_fallback (default_config\<lparr>max_retries := 0\<rparr>) always_loading
      ''t'' ''d'' ''+a'' = (Inr (generate_fallback_review ''+a''), [])"
  using inference_requests_bound [of "default_config\<lparr>max_retries := 0\<rparr>" always_loading
      "''p''" "''t''" "''d''" "''+a''"]
  by (simp add: default_config_def)

text \<open>The bound is reached: with a ceiling of 2 the same endpoint receives two requests.\<close>

lemma call_huggingface_api_two_requests:
  "call_huggingface_api (default_config\<lparr>max_retries := 2\<rparr>) always_loading ''p'' 0 =
     (Inr None, [Request, Sleep 10, Request, Sleep 20])"
  by (simp add: call_huggingface_api.simps default_config_def always_loading_def
        retry_after_def)

text \<open>Whenever \<open>generate_review_with_fallback\<close> returns, it returns a non-empty text.\<close>

lemma generate_review_with_fallback_not_Nil:
  "generate_review_with_fallback cfg post pr_title pr_description diff_content = (Inr doc, evs)
     \<Longrightarrow> doc \<noteq> []"
  by (auto simp: generate_review_with_fallback_def generate_fallback_review_not_Nil
        split: prod.splits sum.splits option.splits if_splits)

text \<open>
  C9 fails on the code. With the default configuration, an endpoint that answers 200 with
  the JSON document \<open>[1]\<close> makes \<open>result[0].get\<close> raise \<open>AttributeError\<close> after one
  request; no handler catches it, so \<open>generate_review_with_fallback\<close> raises instead
  of returning a document.
\<close>

theorem generate_review_with_fallback_raises:
  "generate_review_with_fallback default_config list_of_number ''t'' ''d'' ''+a'' =
     (Inl AttributeError, [Request])"
  by (simp add: generate_review_with_fallback_def generate_review_def Let_def
        call_huggingface_api.simps default_config_def list_of_number_def
        extract_generated_text_def)

section \<open>Properties of the configuration parser\<close>

text \<open>The example of the specification: the \<open>.git\<close> suffix goes and the rest is kept.\<close>

lemma parse_repository_widgets:
  "parse_repository ''https://github.com/acme/widgets.git'' = Inr ''acme/widgets''"
  by code_simp

text \<open>
  C7 fails on the code. \<open>rstrip('.git')\<close> removes every trailing character among
  \<open>.\<close>, \<open>g\<close>, \<open>i\<close> and \<open>t\<close>, not the suffix \<open>.git\<close>: the URL of the repository
  \<open>acme/digit\<close> is normalized to \<open>acme/d\<close>.
\<close>

theorem parse_repository_digit:
  "parse_repository ''https://github.com/acme/digit'' = Inr ''acme/d''"
  by code_simp

lemma parse_repository_digit_git:
  "parse_repository ''https://github.com/acme/digit.git'' = Inr ''acme/d''"
  by code_simp

section \<open>Properties of the request executor\<close>

lemma requests_made_after_events:
  "requests_made (snd (snd (after_events evs later))) =
     requests_made evs + requests_made (snd (snd later))"
  by (simp add: after_events_def requests_made_def)

lemma length_after_events:
  "length (snd (snd (after_events evs later))) = length evs + length (snd (snd later))"
  by (simp add: after_events_def)

lemma requests_made_simps:
  "requests_made [] = 0"
  "requests_made (Request # evs) = Suc (requests_made evs)"
  "requests_made (Sleep t # evs) = requests_made evs"
  by (simp_all add: requests_made_def)

lemma make_request_loop_requests:
  "requests_made (snd (snd (make_request_loop w url is_diff n attempts c))) \<le> length attempts"
proof (induction attempts arbitrary: c)
  case Nil
  show ?case by (simp add: requests_made_simps)
next
  case (Cons attempt rest)
  have later: "\<And>c'. Suc (requests_made (snd (snd (make_request_loop w url is_diff n rest c'))))
      \<le> Suc (length rest)"
    using Cons.IH by simp
  show ?case
    using later
    by (simp add: requests_made_after_events requests_made_simps Let_def
          split: outcome.splits option.splits sum.splits)
qed

lemma make_request_loop_events:
  "length (snd (snd (make_request_loop w url is_diff n attempts c))) \<le> 2 * length attempts"
proof (induction attempts arbitrary: c)
  case Nil
  show ?case by simp
next
  case (Cons attempt rest)
  have later: "\<And>c'. Suc (Suc (length (snd (snd (make_request_loop w url is_diff n rest c')))))
      \<le> 2 * Suc (length rest)"
  proof -
    fix c'
    have "length (snd (snd (make_request_loop w url is_diff n rest c'))) \<le> 2 * length rest"
      by (rule Cons.IH)
    then show "Suc (Suc (length (snd (snd (make_request_loop w url is_diff n rest c')))))
      \<le> 2 * Suc (length rest)" by simp
  qed
  show ?case
    using later
    by (simp add: length_after_events Let_def
          split: outcome.splits option.splits sum.splits)
qed

text \<open>
  C2. Let the ceiling \<open>n\<close> be the \<open>max_retries\<close> argument, or the configured one when
  the argument is absent, and let \<open>n \<ge> 0\<close>. Whatever the network, the clock and the
  headers do, \<open>_make_request\<close> returns after at most \<open>n + 1\<close> calls of
  \<open>session.get\<close>, and after at most \<open>2 * (n + 1) + 1\<close> requests and sleeps together:
  no path retries for ever.
\<close>

theorem make_request_attempts_bound:
  assumes "(case max_retries_arg of None \<Rightarrow> max_retries cfg | Some m \<Rightarrow> m) = n"
    and "0 \<le> n"
  shows "requests_made (snd (snd (make_request cfg w c url is_diff max_retries_arg))) \<le> nat n + 1 \<and>
         length (snd (snd (make_request cfg w c url is_diff max_retries_arg))) \<le> 2 * (nat n + 1) + 1"
proof -
  have len: "length (py_range (n + 1)) = nat n + 1"
    using assms(2) by (simp add: py_range_def nat_add_distrib)
  have "requests_made (snd (snd (make_request cfg w c url is_diff max_retries_arg)))
      = requests_made (snd (snd (make_request_loop w url is_diff n (py_range (n + 1)) c)))"
    using assms(1) by (simp add: make_request_def Let_def requests_made_after_events requests_made_simps)
  moreover have "length (snd (snd (make_request cfg w c url is_diff max_retries_arg)))
      \<le> 1 + length (snd (snd (make_request_loop w url is_diff n (py_range (n + 1)) c)))"
    using assms(1) by (simp add: make_request_def Let_def length_after_events)
  ultimately show ?thesis
    using make_request_loop_requests [of w url is_diff n "py_range (n + 1)" c]
      make_request_loop_events [of w url is_diff n "py_range (n + 1)" c] len
    by simp
qed


lemma py_int_examples:
  "py_int ''0'' = Some 0" "py_int ''5'' = Some 5" "py_int ''7'' = Some 7"
  "py_int ''10'' = Some 10" "py_int ''-1'' = Some (- 1)"
  "py_int ''1060'' = Some 1060" "py_int ''940'' = Some 940" "py_int ''soon'' = None"
  by code_simp+


text \<open>
  Ceiling 1 and a network that always times out: two requests with one backoff between
  them, then \<open>None\<close>.
\<close>

theorem make_request_attempts_bound_witness:
  "(0::int) \<le> 1 \<and>
   make_request default_config (world_of always_timeout) init_client ''u'' False (Some 1) =
     (Inr None, init_client, [Request, Sleep 1, Request]) \<and>
   requests_made [Request, Sleep 1, Request] \<le> nat 1 + 1"
  using make_request_attempts_bound [where max_retries_arg = "Some 1" and n = 1
      and cfg = default_config and w = "world_of always_timeout" and c = init_client
      and url = "''u''" and is_diff = False]
  by (simp add: make_request_def world_of_def always_timeout_def init_client_def py_range_def
        after_events_def backoff_def upt_rec)

text \<open>
  C4 fails on the code. For a 403 that still has quota, \<open>_handle_rate_limit\<close> returns
  \<open>None\<close> for "not rate limited", and \<open>_make_request\<close> reads that \<open>None\<close> as "use
  exponential backoff": with ceiling 1, a 403 with five calls of quota left is followed
  by a sleep and a second request, whose 200 is returned.
\<close>

theorem forbidden_with_quota_is_retried:
  "handle_rate_limit (plain_response 403 [(''X-RateLimit-Remaining'', ''5'')] None) 1000 = Inr None \<and>
   fst (make_request default_config (world_of forbidden_then_ok) init_client ''u'' False (Some 1)) =
     Inr (Some (plain_response 200 [] None)) \<and>
   snd (snd (make_request default_config (world_of forbidden_then_ok) init_client ''u'' False (Some 1))) =
     [Request, Sleep 1, Request]"
  by (simp add: make_request_def world_of_def forbidden_then_ok_def init_client_def py_range_def
        after_events_def backoff_def upt_rec handle_rate_limit_def plain_response_def header_or_def
        py_int_examples raises_for_status_def)

text \<open>
  C8 as the specification words it fails: a response whose remaining-quota header is
  \<open>-1\<close> leaves the counter at \<open>-1\<close>.
\<close>

theorem negative_quota_counterexample:
  "rate_limit_remaining (fst (snd (make_request default_config (world_of (quota_header ''-1''))
      init_client ''u'' False None))) = - 1"
  by (simp add: make_request_def world_of_def quota_header_def init_client_def py_range_def
        after_events_def upt_rec plain_response_def header_or_def default_config_def
        py_int_examples raises_for_status_def)


lemma fst_snd_after_events: "fst (snd (after_events evs later)) = fst (snd later)"
  by (simp add: after_events_def)

lemma make_request_loop_remaining_made:
  "rate_limit_remaining (fst (snd (make_request_loop w url is_diff n attempts c))) =
     rate_limit_remaining c \<or>
   (\<exists>k \<in> set (take (requests_made (snd (snd (make_request_loop w url is_diff n attempts c))))
                    attempts).
      \<exists>r. http_get w url is_diff k = Returned r \<and>
        py_int (header_or r ''X-RateLimit-Remaining'' ''10'') =
          Some (rate_limit_remaining (fst (snd (make_request_loop w url is_diff n attempts c)))))"
proof (induction attempts arbitrary: c)
  case Nil
  show ?case by simp
next
  case (Cons attempt rest)
  let ?seen = "\<lambda>ks v. \<exists>k \<in> set ks. \<exists>r. http_get w url is_diff k = Returned r \<and>
      py_int (header_or r ''X-RateLimit-Remaining'' ''10'') = Some v"
  let ?run = "\<lambda>c'. make_request_loop w url is_diff n rest c'"
  let ?final = "\<lambda>c'. rate_limit_remaining (fst (snd (?run c')))"
  let ?made = "\<lambda>c'. requests_made (snd (snd (?run c')))"
  have IH: "?final c' = rate_limit_remaining c' \<or> ?seen (take (?made c') rest) (?final c')" for c'
    by (rule Cons.IH)
  have later: "?seen (attempt # take (?made c') rest) (?final c')"
    if "?final c' = rate_limit_remaining c' \<longrightarrow> ?seen [attempt] (?final c')" for c'
    using IH [of c'] that by auto
  show ?case
  proof (cases "http_get w url is_diff attempt")
    case (Returned r)
    show ?thesis
    proof (cases "py_int (header_or r ''X-RateLimit-Remaining'' ''10'')")
      case None
      with Returned show ?thesis by simp
    next
      case (Some remaining)
      let ?c2 = "c\<lparr>last_request_time := time_after_get w attempt, rate_limit_remaining := remaining\<rparr>"
      have seen: "?seen [attempt] remaining"
        using Returned Some by simp
      have "?final ?c2 = rate_limit_remaining ?c2 \<longrightarrow> ?seen [attempt] (?final ?c2)"
        using seen by simp
      then have rec: "?seen (attempt # take (?made ?c2) rest) (?final ?c2)"
        by (rule later)
      show ?thesis
        using Returned Some seen rec
        by (simp add: Let_def fst_snd_after_events requests_made_after_events
              requests_made_simps split: sum.splits option.splits)
    qed
  next
    case RaisedTimeout
    show ?thesis
    proof (cases "?final c = rate_limit_remaining c")
      case True
      with RaisedTimeout show ?thesis by (simp add: fst_snd_after_events)
    next
      case False
      then have "?seen (attempt # take (?made c) rest) (?final c)" by (intro later) simp
      with RaisedTimeout show ?thesis
        by (simp add: fst_snd_after_events requests_made_after_events requests_made_simps)
    qed
  next
    case RaisedConnectionError
    show ?thesis
    proof (cases "?final c = rate_limit_remaining c")
      case True
      with RaisedConnectionError show ?thesis by (simp add: fst_snd_after_events)
    next
      case False
      then have "?seen (attempt # take (?made c) rest) (?final c)" by (intro later) simp
      with RaisedConnectionError show ?thesis
        by (simp add: fst_snd_after_events requests_made_after_events requests_made_simps)
    qed
  next
    case RaisedRequestException
    then show ?thesis by simp
  qed
qed

text \<open>
  C8, as the code has it. After \<open>_make_request\<close> the counter \<open>rate_limit_remaining\<close>
  holds either its previous value or the integer read, unchanged, from the
  remaining-quota header of one of the responses received in this call (the text
  \<open>10\<close> when the header is absent); the responses received are those of the attempts
  below the number of requests made. So the counter stays non-negative when it was
  non-negative before and no response received carries a negative remaining quota.
\<close>

theorem rate_limit_remaining_unclamped:
  "(rate_limit_remaining (fst (snd (make_request cfg w c url is_diff max_retries_arg))) =
      rate_limit_remaining c \<or>
    (\<exists>k < requests_made (snd (snd (make_request cfg w c url is_diff max_retries_arg))).
       \<exists>r. http_get w url is_diff k = Returned r \<and>
         py_int (header_or r ''X-RateLimit-Remaining'' ''10'') =
           Some (rate_limit_remaining
                  (fst (snd (make_request cfg w c url is_diff max_retries_arg)))))) \<and>
   (0 \<le> rate_limit_remaining c \<and>
    (\<forall>k < requests_made (snd (snd (make_request cfg w c url is_diff max_retries_arg))).
       \<forall>r v. http_get w url is_diff k = Returned r \<and>
         py_int (header_or r ''X-RateLimit-Remaining'' ''10'') = Some v \<longrightarrow> 0 \<le> v) \<longrightarrow>
    0 \<le> rate_limit_remaining (fst (snd (make_request cfg w c url is_diff max_retries_arg))))"
proof -
  define n where "n = (case max_retries_arg of None \<Rightarrow> max_retries cfg | Some m \<Rightarrow> m)"
  define run where "run = make_request_loop w url is_diff n (py_range (n + 1)) c"
  have state: "fst (snd (make_request cfg w c url is_diff max_retries_arg)) = fst (snd run)"
    by (simp add: make_request_def Let_def fst_snd_after_events n_def run_def)
  have made: "requests_made (snd (snd (make_request cfg w c url is_diff max_retries_arg))) =
      requests_made (snd (snd run))"
    by (simp add: make_request_def Let_def requests_made_after_events requests_made_simps
          n_def run_def)
  have below: "k < requests_made (snd (snd run))"
    if "k \<in> set (take (requests_made (snd (snd run))) (py_range (n + 1)))" for k
    using that by (auto simp: py_range_def in_set_conv_nth)
  have first: "rate_limit_remaining (fst (snd run)) = rate_limit_remaining c \<or>
    (\<exists>k < requests_made (snd (snd run)).
       \<exists>r. http_get w url is_diff k = Returned r \<and>
         py_int (header_or r ''X-RateLimit-Remaining'' ''10'') =
           Some (rate_limit_remaining (fst (snd run))))"
    using make_request_loop_remaining_made [of w url is_diff n "py_range (n + 1)" c] below
    unfolding run_def [symmetric] by blast
  then show ?thesis unfolding state made by auto
qed

text \<open>
  A response with a remaining quota of 7 is returned at the first request, and sets the
  counter to 7.
\<close>

theorem rate_limit_remaining_unclamped_witness:
  "0 \<le> rate_limit_remaining init_client \<and>
   requests_made (snd (snd (make_request default_config (world_of (quota_header ''7''))
      init_client ''u'' False None))) = 1 \<and>
   rate_limit_remaining (fst (snd (make_request default_config (world_of (quota_header ''7''))
      init_client ''u'' False None))) = 7"
  using rate_limit_remaining_unclamped [where cfg = default_config
      and w = "world_of (quota_header ''7'')" and c = init_client and url = "''u''"
      and is_diff = False and max_retries_arg = None]
  by (simp add: make_request_def world_of_def quota_header_def init_client_def py_range_def
        after_events_def upt_rec plain_response_def header_or_def default_config_def
        py_int_examples raises_for_status_def requests_made_simps)

section \<open>Properties of double rounding\<close>
























section \<open>Properties of the rate-limit wait\<close>








section \<open>Properties of the repository gateway\<close>






end
